theory Spec2Isabelle
  imports Main
begin

section \<open>JavaScript values handled by the authentication code\<close>

text \<open>
  An identifier as the server meets it: either a plain string (a token claim, a test
  fixture) or a database ObjectId, an object whose \<^verbatim>\<open>toString()\<close> gives its text.
  The empty string is falsy in JavaScript; every object is truthy.
\<close>

datatype js_id = IdString string | IdObject string

fun id_toString :: "js_id \<Rightarrow> string" where
  "id_toString (IdString s) = s"
| "id_toString (IdObject s) = s"

fun id_truthy :: "js_id \<Rightarrow> bool" where
  "id_truthy (IdString s) = (s \<noteq> [])"
| "id_truthy (IdObject s) = True"

text \<open>
  Exceptions are values. \<open>Error m\<close> is \<^verbatim>\<open>new Error(m)\<close>; the next three are the
  error classes of the jsonwebtoken package; \<open>TypeError\<close> is raised by the runtime when a
  method is called on \<^verbatim>\<open>undefined\<close>; \<open>StoreError\<close> is a rejection of the user store.
\<close>

datatype js_error =
    Error string
  | JsonWebTokenError string
  | TokenExpiredError string
  | TypeError string
  | StoreError string

fun error_message :: "js_error \<Rightarrow> string" where
  "error_message (Error m) = m"
| "error_message (JsonWebTokenError m) = m"
| "error_message (TokenExpiredError m) = m"
| "error_message (TypeError m) = m"
| "error_message (StoreError m) = m"

text \<open>
  \<^verbatim>\<open>String.prototype.split\<close> with a one-character separator: the pieces between the
  separators, empty pieces included; a string without the separator is one piece.
\<close>

fun js_split :: "char \<Rightarrow> string \<Rightarrow> string list" where
  "js_split c [] = [[]]"
| "js_split c (x # xs) =
     (if x = c then [] # js_split c xs
      else (case js_split c xs of
              [] \<Rightarrow> [[x]]
            | p # ps \<Rightarrow> (x # p) # ps))"

section \<open>config/env.js\<close>

text \<open>
  The process configuration, read once from the environment. Only the values the
  authentication code and the logger read are kept.
\<close>

record env =
  JWT_SECRET :: string
  JWT_EXPIRE :: string
  LOG_LEVEL :: string

section \<open>models/User.js\<close>

text \<open>
  A user document. \<open>user_id\<close> is the field \<^verbatim>\<open>_id\<close>; it and \<open>role\<close> are optional
  because the middleware is also run on plain objects that lack them (\<open>None\<close> is
  \<^verbatim>\<open>undefined\<close>).
\<close>

record user_doc =
  user_id :: "js_id option"
  username :: "string option"
  email :: "string option"
  role :: "string option"
  isActive :: bool

section \<open>The jsonwebtoken package, as a parameter\<close>

text \<open>
  The payload that \<^verbatim>\<open>generateToken\<close> hands to \<^verbatim>\<open>jwt.sign\<close>, and the claims that
  \<^verbatim>\<open>jwt.verify\<close> gives back: the payload with the issued-at and expiry times (seconds).
  A field that is \<^verbatim>\<open>undefined\<close> is \<open>None\<close>; JSON drops it.
\<close>

record payload =
  tok_id :: "string option"
  tok_username :: "string option"
  tok_email :: "string option"
  tok_role :: "string option"

record claims = payload +
  tok_iat :: nat
  tok_exp :: nat

text \<open>
  The package is not part of the repository, so its two entry points are parameters:
  \<open>sign payload secret expiresIn clock\<close> returns the token or throws, and
  \<open>verify token secret clock\<close> returns the claims or throws.
\<close>

record jwt_lib =
  sign :: "payload \<Rightarrow> string \<Rightarrow> string \<Rightarrow> nat \<Rightarrow> js_error + string"
  verify :: "string \<Rightarrow> string \<Rightarrow> nat \<Rightarrow> js_error + claims"

text \<open>
  What the code relies on: with a non-empty secret and a well-formed lifetime
  \<open>expiresIn\<close> (\<open>span\<close> reads it as a number of seconds), signing succeeds, and the
  token verifies under the same secret at every time before its expiry and gives back
  the payload with the two time claims.
\<close>

definition jwt_contract :: "jwt_lib \<Rightarrow> (string \<Rightarrow> nat option) \<Rightarrow> bool" where
  "jwt_contract lib span \<longleftrightarrow>
     (\<forall>p secret e d t. secret \<noteq> [] \<and> span e = Some d \<longrightarrow>
        (\<exists>tok. sign lib p secret e t = Inr tok \<and>
           (\<forall>clock. clock < t + d \<longrightarrow>
              verify lib tok secret clock =
                Inr (payload.extend p \<lparr>tok_iat = t, tok_exp = t + d\<rparr>))))"

section \<open>utils/auth.js\<close>

text \<open>
  \<^verbatim>\<open>generateToken\<close> copies four fields of the user into the payload. The identifier
  goes into JSON, where an ObjectId is written as its text, so the claim \<open>tok_id\<close> is the
  string form of \<^verbatim>\<open>user._id\<close>. The clock is what \<^verbatim>\<open>jwt.sign\<close> reads for the
  issued-at time.
\<close>

definition generateToken :: "jwt_lib \<Rightarrow> env \<Rightarrow> user_doc \<Rightarrow> nat \<Rightarrow> js_error + string" where
  "generateToken lib cfg u clock =
     (let p = \<lparr>tok_id = map_option id_toString (user_id u),
               tok_username = username u,
               tok_email = email u,
               tok_role = role u\<rparr>
      in sign lib p (JWT_SECRET cfg) (JWT_EXPIRE cfg) clock)"

text \<open>
  \<^verbatim>\<open>verifyToken\<close> catches whatever \<^verbatim>\<open>jwt.verify\<close> throws and throws
  \<^verbatim>\<open>new Error('Invalid token')\<close> in its place (\<open>Inl\<close> is a thrown exception).
\<close>

definition verifyToken :: "jwt_lib \<Rightarrow> env \<Rightarrow> string \<Rightarrow> nat \<Rightarrow> js_error + claims" where
  "verifyToken lib cfg token clock =
     (case verify lib token (JWT_SECRET cfg) clock of
        Inr decoded \<Rightarrow> Inr decoded
      | Inl err \<Rightarrow> Inl (Error ''Invalid token''))"

definition extractToken :: "string option \<Rightarrow> string option" where
  "extractToken authHeader =
     (case authHeader of
        None \<Rightarrow> None
      | Some h \<Rightarrow>
          if h = [] then None
          else (let parts = js_split CHR '' '' h
                in if length parts \<noteq> 2 then None
                   else if parts ! 0 \<noteq> ''Bearer'' then None
                   else Some (parts ! 1)))"

text \<open>
  What a property lookup on an object literal can give: a number, \<^verbatim>\<open>undefined\<close>, or an
  object or function inherited from \<^verbatim>\<open>Object.prototype\<close>. An object is kept as the
  string that \<^verbatim>\<open>ToPrimitive\<close> makes of it, which is all a comparison reads.
\<close>

datatype js_value = JNumber nat | JUndefined | JObject string

text \<open>
  The names every object literal inherits, and the string primitive of what each name
  holds: \<^verbatim>\<open>constructor\<close> is the function \<^verbatim>\<open>Object\<close>, \<^verbatim>\<open>__proto__\<close> is the
  prototype object itself, and every other name is a native function of that name.
\<close>

definition object_prototype_keys :: "string list" where
  "object_prototype_keys =
     [''constructor'', ''__defineGetter__'', ''__defineSetter__'', ''hasOwnProperty'',
      ''__lookupGetter__'', ''__lookupSetter__'', ''isPrototypeOf'',
      ''propertyIsEnumerable'', ''toString'', ''valueOf'', ''__proto__'',
      ''toLocaleString'']"

definition object_prototype_member :: "string \<Rightarrow> string" where
  "object_prototype_member key =
     (if key = ''constructor'' then ''function Object() { [native code] }''
      else if key = ''__proto__'' then ''[object Object]''
      else ''function '' @ key @ ''() { [native code] }'')"

text \<open>
  \<^verbatim>\<open>roleHierarchy[key]\<close> on the object literal \<^verbatim>\<open>{ user: 1, admin: 2 }\<close>: its own two
  properties, then what the literal inherits, then \<^verbatim>\<open>undefined\<close>. The key
  \<^verbatim>\<open>undefined\<close> is looked up as the string \<^verbatim>\<open>"undefined"\<close>.
\<close>

definition property_key :: "string option \<Rightarrow> string" where
  "property_key k = (case k of None \<Rightarrow> ''undefined'' | Some s \<Rightarrow> s)"

definition roleHierarchy :: "string \<Rightarrow> js_value" where
  "roleHierarchy key =
     (if key = ''user'' then JNumber 1
      else if key = ''admin'' then JNumber 2
      else if key \<in> set object_prototype_keys then JObject (object_prototype_member key)
      else JUndefined)"

text \<open>
  The order of two strings in JavaScript: a proper prefix is smaller; otherwise the first
  position where they differ decides, by character code.
\<close>

fun js_string_less :: "string \<Rightarrow> string \<Rightarrow> bool" where
  "js_string_less [] [] = False"
| "js_string_less [] (y # ys) = True"
| "js_string_less (x # xs) [] = False"
| "js_string_less (x # xs) (y # ys) =
     (if (of_char x :: nat) < of_char y then True
      else if (of_char y :: nat) < of_char x then False
      else js_string_less xs ys)"

text \<open>
  \<^verbatim>\<open>a >= b\<close>. Both operands are made primitive first. Two strings are compared as
  strings, and \<^verbatim>\<open>a >= b\<close> is the negation of \<^verbatim>\<open>a < b\<close>. In every other case both
  sides are converted to numbers: \<^verbatim>\<open>undefined\<close> is NaN, and so are the strings that
  the inherited objects give (none is a numeral); a comparison with NaN is false.
\<close>

fun js_ge :: "js_value \<Rightarrow> js_value \<Rightarrow> bool" where
  "js_ge (JNumber x) (JNumber y) = (y \<le> x)"
| "js_ge (JObject s) (JObject t) = (\<not> js_string_less s t)"
| "js_ge a b = False"

definition hasRole :: "string option \<Rightarrow> string option \<Rightarrow> bool" where
  "hasRole userRole requiredRole =
     js_ge (roleHierarchy (property_key userRole)) (roleHierarchy (property_key requiredRole))"

section \<open>utils/logger.js\<close>

text \<open>
  One line written to the console. The logger renders it as text with an ISO timestamp
  and the metadata as JSON; the rendering is left out, the parts are kept.
\<close>

record log_entry =
  stamp :: nat
  log_level :: string
  log_message :: string
  log_meta :: "(string \<times> string option) list"

text \<open>
  The state outside a request: the clock (seconds), the user store behind
  \<^verbatim>\<open>User.findById\<close> (a document, \<^verbatim>\<open>null\<close>, or a rejection) and what has been
  written to the console.
\<close>

record world =
  now :: nat
  findById :: "string option \<Rightarrow> js_error + user_doc option"
  console :: "log_entry list"

definition LOG_LEVELS :: "string \<Rightarrow> js_value" where
  "LOG_LEVELS key =
     (if key = ''error'' then JNumber 0
      else if key = ''warn'' then JNumber 1
      else if key = ''info'' then JNumber 2
      else if key = ''debug'' then JNumber 3
      else if key \<in> set object_prototype_keys then JObject (object_prototype_member key)
      else JUndefined)"

fun js_truthy :: "js_value \<Rightarrow> bool" where
  "js_truthy (JNumber n) = (n \<noteq> 0)"
| "js_truthy JUndefined = False"
| "js_truthy (JObject s) = True"

definition getCurrentLogLevel :: "env \<Rightarrow> js_value" where
  "getCurrentLogLevel cfg =
     (if js_truthy (LOG_LEVELS (LOG_LEVEL cfg)) then LOG_LEVELS (LOG_LEVEL cfg)
      else LOG_LEVELS ''info'')"

definition shouldLog :: "env \<Rightarrow> string \<Rightarrow> bool" where
  "shouldLog cfg lvl = js_ge (getCurrentLogLevel cfg) (LOG_LEVELS lvl)"

definition logger_error ::
  "env \<Rightarrow> string \<Rightarrow> (string \<times> string option) list \<Rightarrow> world \<Rightarrow> world" where
  "logger_error cfg msg m w =
     (if shouldLog cfg ''error''
      then w\<lparr>console := console w @ [\<lparr>stamp = now w, log_level = ''error'', log_message = msg, log_meta = m\<rparr>]\<rparr>
      else w)"

definition logger_warn ::
  "env \<Rightarrow> string \<Rightarrow> (string \<times> string option) list \<Rightarrow> world \<Rightarrow> world" where
  "logger_warn cfg msg m w =
     (if shouldLog cfg ''warn''
      then w\<lparr>console := console w @ [\<lparr>stamp = now w, log_level = ''warn'', log_message = msg, log_meta = m\<rparr>]\<rparr>
      else w)"

section \<open>middleware/auth.js\<close>

text \<open>
  The request as the middleware reads it: the Authorization header, \<^verbatim>\<open>req.user\<close> and
  \<^verbatim>\<open>req.resource\<close> (an object from field names to identifiers).
\<close>

record request =
  authorization :: "string option"
  user :: "user_doc option"
  resource :: "(string \<Rightarrow> js_id option) option"

record response_body =
  success :: bool
  message :: string

text \<open>
  How a middleware ends: it calls \<^verbatim>\<open>next()\<close> once and sends nothing (\<open>Next\<close>, with
  the request as it leaves), or it sends a JSON response with a status and does not call
  \<^verbatim>\<open>next\<close> (\<open>Respond\<close>), or an exception leaves it (\<open>Throws\<close>). Express runs the
  later handlers inside its own try block, so \<^verbatim>\<open>next()\<close> itself does not throw.
\<close>

datatype outcome = Next request | Respond nat response_body | Throws js_error

definition authenticateToken :: "jwt_lib \<Rightarrow> env \<Rightarrow> request \<Rightarrow> world \<Rightarrow> outcome \<times> world" where
  "authenticateToken lib cfg req w =
     (let caught = (\<lambda>err.
            (Respond 401 \<lparr>success = False, message = ''Invalid or expired token''\<rparr>,
             logger_error cfg ''Authentication failed'' [(''error'', Some (error_message err))] w));
          no_token =
            (Respond 401 \<lparr>success = False, message = ''Access token is required''\<rparr>, w)
      in case extractToken (authorization req) of
           None \<Rightarrow> no_token
         | Some token \<Rightarrow>
             if token = [] then no_token
             else (case verifyToken lib cfg token (now w) of
                     Inl err \<Rightarrow> caught err
                   | Inr decoded \<Rightarrow>
                       (case findById w (tok_id decoded) of
                          Inl err \<Rightarrow> caught err
                        | Inr None \<Rightarrow>
                            (Respond 401 \<lparr>success = False, message = ''User not found''\<rparr>, w)
                        | Inr (Some u) \<Rightarrow>
                            if \<not> isActive u
                            then (Respond 401
                                    \<lparr>success = False, message = ''Account is deactivated''\<rparr>, w)
                            else (Next (req\<lparr>user := Some u\<rparr>), w))))"

definition requireRole :: "env \<Rightarrow> string option \<Rightarrow> request \<Rightarrow> world \<Rightarrow> outcome \<times> world" where
  "requireRole cfg requiredRole req w =
     (case user req of
        None \<Rightarrow>
          (Respond 401 \<lparr>success = False, message = ''Authentication required''\<rparr>, w)
      | Some u \<Rightarrow>
          if \<not> hasRole (role u) requiredRole
          then (Respond 403
                  \<lparr>success = False, message = ''Access denied - insufficient permissions''\<rparr>,
                logger_warn cfg ''Access denied - insufficient permissions''
                  [(''userId'', map_option id_toString (user_id u)),
                   (''userRole'', role u),
                   (''requiredRole'', requiredRole)] w)
          else (Next req, w))"

definition requireOwnership :: "env \<Rightarrow> string \<Rightarrow> request \<Rightarrow> world \<Rightarrow> outcome \<times> world" where
  "requireOwnership cfg resourceField req w =
     (case user req of
        None \<Rightarrow>
          (Respond 401 \<lparr>success = False, message = ''Authentication required''\<rparr>, w)
      | Some u \<Rightarrow>
          if role u = Some ''admin'' then (Next req, w)
          else
            (let resourceUserId =
                   (case resource req of None \<Rightarrow> None | Some r \<Rightarrow> r resourceField);
                 denied =
                   (Respond 403
                      \<lparr>success = False,
                       message = ''Access denied - you can only access your own resources''\<rparr>,
                    logger_warn cfg ''Access denied - not resource owner''
                      [(''userId'', map_option id_toString (user_id u)),
                       (''resourceUserId'', map_option id_toString resourceUserId),
                       (''resourceField'', Some resourceField)] w)
             in case resourceUserId of
                  None \<Rightarrow> denied
                | Some rid \<Rightarrow>
                    if \<not> id_truthy rid then denied
                    else (case user_id u of
                            None \<Rightarrow>
                              (Throws (TypeError ''Cannot read properties of undefined''), w)
                          | Some uid \<Rightarrow>
                              if id_toString rid \<noteq> id_toString uid then denied
                              else (Next req, w))))"

definition optionalAuth :: "jwt_lib \<Rightarrow> env \<Rightarrow> request \<Rightarrow> world \<Rightarrow> outcome \<times> world" where
  "optionalAuth lib cfg req w =
     (case extractToken (authorization req) of
        None \<Rightarrow> (Next req, w)
      | Some token \<Rightarrow>
          if token = [] then (Next req, w)
          else (case verifyToken lib cfg token (now w) of
                  Inl err \<Rightarrow> (Next req, w)
                | Inr decoded \<Rightarrow>
                    (case findById w (tok_id decoded) of
                       Inl err \<Rightarrow> (Next req, w)
                     | Inr None \<Rightarrow> (Next req, w)
                     | Inr (Some u) \<Rightarrow>
                         if isActive u then (Next (req\<lparr>user := Some u\<rparr>), w)
                         else (Next req, w))))"

section \<open>The role order, as the specification words it\<close>

text \<open>
  The specification's role hierarchy: two roles, \<open>admin\<close> above \<open>user\<close>; any other
  value, \<^verbatim>\<open>undefined\<close> included, is no role. A caller has a required role when both
  are roles and the caller's rank is at least the required rank.
\<close>

datatype spec_role = RoleUser | RoleAdmin

definition known_role :: "string option \<Rightarrow> spec_role option" where
  "known_role r =
     (if r = Some ''user'' then Some RoleUser
      else if r = Some ''admin'' then Some RoleAdmin
      else None)"

fun rank :: "spec_role \<Rightarrow> nat" where
  "rank RoleUser = 1"
| "rank RoleAdmin = 2"

definition spec_hasRole :: "string option \<Rightarrow> string option \<Rightarrow> bool" where
  "spec_hasRole callerRole requiredRole =
     (case known_role callerRole of
        None \<Rightarrow> False
      | Some c \<Rightarrow>
          (case known_role requiredRole of
             None \<Rightarrow> False
           | Some r \<Rightarrow> rank r \<le> rank c))"

section \<open>A reference instance of the jsonwebtoken parameter\<close>

text \<open>
  A small executable stand-in for the package, used to instantiate the parameter at
  concrete tokens. A token is seven fields written in hexadecimal and joined by dots:
  the four payload fields, the two times in decimal, and a tag computed from the secret
  and the six fields before it. \<open>ref_verify\<close> rejects in the order of the package:
  malformed, no secret, wrong signature, expired.
\<close>

text \<open>One hexadecimal digit for four bits, the least significant bit first.\<close>

fun nibble :: "bool \<Rightarrow> bool \<Rightarrow> bool \<Rightarrow> bool \<Rightarrow> char" where
  "nibble False False False False = CHR ''0''"
| "nibble True False False False = CHR ''1''"
| "nibble False True False False = CHR ''2''"
| "nibble True True False False = CHR ''3''"
| "nibble False False True False = CHR ''4''"
| "nibble True False True False = CHR ''5''"
| "nibble False True True False = CHR ''6''"
| "nibble True True True False = CHR ''7''"
| "nibble False False False True = CHR ''8''"
| "nibble True False False True = CHR ''9''"
| "nibble False True False True = CHR ''a''"
| "nibble True True False True = CHR ''b''"
| "nibble False False True True = CHR ''c''"
| "nibble True False True True = CHR ''d''"
| "nibble False True True True = CHR ''e''"
| "nibble True True True True = CHR ''f''"

definition unnibble :: "char \<Rightarrow> (bool \<times> bool \<times> bool \<times> bool) option" where
  "unnibble c =
     map_of [(CHR ''0'', (False, False, False, False)), (CHR ''1'', (True, False, False, False)),
             (CHR ''2'', (False, True, False, False)), (CHR ''3'', (True, True, False, False)),
             (CHR ''4'', (False, False, True, False)), (CHR ''5'', (True, False, True, False)),
             (CHR ''6'', (False, True, True, False)), (CHR ''7'', (True, True, True, False)),
             (CHR ''8'', (False, False, False, True)), (CHR ''9'', (True, False, False, True)),
             (CHR ''a'', (False, True, False, True)), (CHR ''b'', (True, True, False, True)),
             (CHR ''c'', (False, False, True, True)), (CHR ''d'', (True, False, True, True)),
             (CHR ''e'', (False, True, True, True)), (CHR ''f'', (True, True, True, True))] c"

fun hex :: "string \<Rightarrow> string" where
  "hex [] = []"
| "hex (Char b0 b1 b2 b3 b4 b5 b6 b7 # cs) = nibble b4 b5 b6 b7 # nibble b0 b1 b2 b3 # hex cs"

fun unhex :: "string \<Rightarrow> string option" where
  "unhex [] = Some []"
| "unhex [a] = None"
| "unhex (a # b # cs) =
     (case unnibble a of
        None \<Rightarrow> None
      | Some (b4, b5, b6, b7) \<Rightarrow>
          (case unnibble b of
             None \<Rightarrow> None
           | Some (b0, b1, b2, b3) \<Rightarrow>
               map_option ((#) (Char b0 b1 b2 b3 b4 b5 b6 b7)) (unhex cs)))"

text \<open>Numbers in decimal, most significant digit first.\<close>

definition digit_char :: "nat \<Rightarrow> char" where
  "digit_char n = ''0123456789'' ! n"

definition digit_val :: "char \<Rightarrow> nat option" where
  "digit_val c =
     map_of [(CHR ''0'', 0), (CHR ''1'', 1), (CHR ''2'', 2), (CHR ''3'', 3), (CHR ''4'', 4),
             (CHR ''5'', 5), (CHR ''6'', 6), (CHR ''7'', 7), (CHR ''8'', 8), (CHR ''9'', 9)] c"

fun dec :: "nat \<Rightarrow> string" where
  "dec n = (if n < 10 then [digit_char n] else dec (n div 10) @ [digit_char (n mod 10)])"

declare dec.simps [simp del]

fun undec_from :: "nat \<Rightarrow> string \<Rightarrow> nat option" where
  "undec_from a [] = Some a"
| "undec_from a (c # cs) =
     (case digit_val c of
        None \<Rightarrow> None
      | Some v \<Rightarrow> undec_from (10 * a + v) cs)"

definition undec :: "string \<Rightarrow> nat option" where
  "undec s = (if s = [] then None else undec_from 0 s)"

text \<open>
  Fields joined by dots; an optional field is written \<open>u\<close> when it is
  \<^verbatim>\<open>undefined\<close> and \<open>s\<close> followed by its text otherwise.
\<close>

fun join_dot :: "string list \<Rightarrow> string" where
  "join_dot [] = []"
| "join_dot [x] = x"
| "join_dot (x # y # ys) = x @ CHR ''.'' # join_dot (y # ys)"

definition opt_field :: "string option \<Rightarrow> string" where
  "opt_field v = (case v of None \<Rightarrow> ''u'' | Some s \<Rightarrow> CHR ''s'' # s)"

definition opt_unfield :: "string \<Rightarrow> string option option" where
  "opt_unfield f =
     (case f of
        [] \<Rightarrow> None
      | c # s \<Rightarrow>
          if c = CHR ''s'' then Some (Some s)
          else if c = CHR ''u'' \<and> s = [] then Some None
          else None)"

text \<open>
  The tag stands in for the HMAC of the package: a function of the secret and of the
  signed fields that differs when the secret differs. The lifetime is a decimal number
  followed by one of the units \<open>s\<close>, \<open>m\<close>, \<open>h\<close>, \<open>d\<close>.
\<close>

definition ref_mac :: "string \<Rightarrow> string list \<Rightarrow> string" where
  "ref_mac secret fs = secret @ CHR ''|'' # concat fs"

definition ref_span :: "string \<Rightarrow> nat option" where
  "ref_span e =
     (if e = [] then None
      else (case undec (butlast e) of
              None \<Rightarrow> None
            | Some n \<Rightarrow>
                if last e = CHR ''s'' then Some n
                else if last e = CHR ''m'' then Some (n * 60)
                else if last e = CHR ''h'' then Some (n * 3600)
                else if last e = CHR ''d'' then Some (n * 86400)
                else None))"

definition ref_sign :: "payload \<Rightarrow> string \<Rightarrow> string \<Rightarrow> nat \<Rightarrow> js_error + string" where
  "ref_sign p secret e t =
     (if secret = [] then Inl (Error ''secretOrPrivateKey must have a value'')
      else (case ref_span e of
              None \<Rightarrow> Inl (Error ''expiresIn should be a number of seconds or a timespan'')
            | Some d \<Rightarrow>
                (let fs = [opt_field (tok_id p), opt_field (tok_username p),
                           opt_field (tok_email p), opt_field (tok_role p),
                           dec t, dec (t + d)]
                 in Inr (join_dot (map hex (fs @ [ref_mac secret fs]))))))"

definition ref_verify :: "string \<Rightarrow> string \<Rightarrow> nat \<Rightarrow> js_error + claims" where
  "ref_verify token secret clock =
     (case those (map unhex (js_split CHR ''.'' token)) of
        Some [a, b, c, d, i, x, m] \<Rightarrow>
          (case (opt_unfield a, opt_unfield b, opt_unfield c, opt_unfield d, undec i, undec x) of
             (Some a', Some b', Some c', Some d', Some i', Some x') \<Rightarrow>
               if secret = []
               then Inl (JsonWebTokenError ''secret or public key must be provided'')
               else if m \<noteq> ref_mac secret [a, b, c, d, i, x]
               then Inl (JsonWebTokenError ''invalid signature'')
               else if x' \<le> clock then Inl (TokenExpiredError ''jwt expired'')
               else Inr \<lparr>tok_id = a', tok_username = b', tok_email = c', tok_role = d',
                         tok_iat = i', tok_exp = x'\<rparr>
           | _ \<Rightarrow> Inl (JsonWebTokenError ''jwt malformed''))
      | _ \<Rightarrow> Inl (JsonWebTokenError ''jwt malformed''))"

definition ref_jwt :: jwt_lib where
  "ref_jwt = \<lparr>sign = ref_sign, verify = ref_verify\<rparr>"

section \<open>Fixtures of the unit tests\<close>

text \<open>
  The default configuration of \<^verbatim>\<open>config/env.js\<close>, the user, request and store of
  \<^verbatim>\<open>auth.test.js\<close>, and a token issued to that user at time 100.
\<close>

definition default_env :: env where
  "default_env =
     \<lparr>JWT_SECRET = ''your-super-secret-jwt-key-change-in-production'',
      JWT_EXPIRE = ''7d'',
      LOG_LEVEL = ''info''\<rparr>"

definition mockUser :: user_doc where
  "mockUser =
     \<lparr>user_id = Some (IdString ''507f1f77bcf86cd799439011''),
      username = Some ''testuser'',
      email = Some ''test@example.com'',
      role = Some ''user'',
      isActive = True\<rparr>"

definition mock_findById :: "string option \<Rightarrow> js_error + user_doc option" where
  "mock_findById i =
     (if i = Some ''507f1f77bcf86cd799439011'' then Inr (Some mockUser) else Inr None)"

definition mock_world :: world where
  "mock_world = \<lparr>now = 1000, findById = mock_findById, console = []\<rparr>"

definition mock_token :: string where
  "mock_token =
     (case generateToken ref_jwt default_env mockUser 100 of Inr token \<Rightarrow> token | Inl err \<Rightarrow> [])"

definition mockReq :: request where
  "mockReq = \<lparr>authorization = None, user = None, resource = None\<rparr>"

definition resource_with :: "string \<Rightarrow> js_id \<Rightarrow> string \<Rightarrow> js_id option" where
  "resource_with field owner key = (if key = field then Some owner else None)"

definition adminUser :: user_doc where
  "adminUser = mockUser\<lparr>user_id := Some (IdString ''u1''), role := Some ''admin''\<rparr>"

section \<open>Facts about splitting\<close>

lemma js_split_nonempty: "js_split c s \<noteq> []"
  by (induction s) (auto split: list.splits)

lemma js_split_no_sep: "c \<notin> set s \<Longrightarrow> js_split c s = [s]"
  by (induction s) auto

lemma js_split_append_sep:
  "c \<notin> set x \<Longrightarrow> js_split c (x @ c # rest) = x # js_split c rest"
  by (induction x) auto

lemma js_split_single: "js_split c s = [a] \<Longrightarrow> s = a \<and> c \<notin> set a"
  using js_split_nonempty [of c]
  by (induction s arbitrary: a) (auto split: if_splits list.splits)

lemma js_split_two: "js_split c s = [a, b] \<Longrightarrow> s = a @ c # b \<and> c \<notin> set a \<and> c \<notin> set b"
proof (induction s arbitrary: a)
  case Nil
  then show ?case by simp
next
  case (Cons x xs)
  show ?case
  proof (cases "x = c")
    case True
    with Cons.prems have "a = []" and "js_split c xs = [b]" by simp_all
    with True js_split_single [of c xs b] show ?thesis by simp
  next
    case False
    with Cons.prems obtain p where p: "js_split c xs = [p, b]" and a: "a = x # p"
      by (auto split: list.splits)
    from Cons.IH [OF p] a False show ?thesis by simp
  qed
qed

text \<open>
  What \<^verbatim>\<open>extractToken\<close> accepts: exactly the headers \<^verbatim>\<open>Bearer\<close>, one space, and a
  rest without a space. The rest may be empty.
\<close>

lemma extractToken_Some_iff:
  "extractToken h = Some t \<longleftrightarrow> h = Some (''Bearer '' @ t) \<and> CHR '' '' \<notin> set t"
proof
  assume e: "extractToken h = Some t"
  then obtain s where h: "h = Some s" by (cases h) (simp_all add: extractToken_def)
  from e h have len: "length (js_split CHR '' '' s) = 2"
    and p0: "js_split CHR '' '' s ! 0 = ''Bearer''" and p1: "js_split CHR '' '' s ! 1 = t"
    by (simp_all add: extractToken_def Let_def split: if_splits)
  from len obtain a b where ab: "js_split CHR '' '' s = [a, b]"
    by (cases "js_split CHR '' '' s" rule: list.exhaust) (auto simp: length_Suc_conv)
  with p0 p1 have "a = ''Bearer''" "b = t" by simp_all
  with js_split_two [OF ab] h show "h = Some (''Bearer '' @ t) \<and> CHR '' '' \<notin> set t" by simp
next
  assume "h = Some (''Bearer '' @ t) \<and> CHR '' '' \<notin> set t"
  then have h: "h = Some (''Bearer'' @ CHR '' '' # t)" and t: "CHR '' '' \<notin> set t" by simp_all
  have "js_split CHR '' '' (''Bearer'' @ CHR '' '' # t) = ''Bearer'' # js_split CHR '' '' t"
    by (rule js_split_append_sep) simp
  with t have "js_split CHR '' '' (''Bearer'' @ CHR '' '' # t) = [''Bearer'', t]"
    by (simp add: js_split_no_sep)
  with h show "extractToken h = Some t" by (simp add: extractToken_def)
qed

section \<open>Facts about the role table\<close>

lemma js_string_less_irrefl: "\<not> js_string_less s s"
  by (induction s) simp_all

lemma roleHierarchy_cases:
  "roleHierarchy key =
     (case known_role (Some key) of
        Some r \<Rightarrow> JNumber (rank r)
      | None \<Rightarrow>
          if key \<in> set object_prototype_keys then JObject (object_prototype_member key)
          else JUndefined)"
  by (simp add: roleHierarchy_def known_role_def)

lemma roleHierarchy_undefined: "roleHierarchy (property_key None) = JUndefined"
  by (simp add: roleHierarchy_def property_key_def object_prototype_keys_def)

lemma known_role_not_inherited:
  "known_role (Some key) = Some r \<Longrightarrow> key \<notin> set object_prototype_keys"
  by (auto simp: known_role_def object_prototype_keys_def split: if_splits)

text \<open>
  Where \<^verbatim>\<open>hasRole\<close> agrees with the role order of the specification: whenever one of
  the two roles is not a name inherited from \<^verbatim>\<open>Object.prototype\<close>.
\<close>

lemma hasRole_outside_inherited:
  assumes "property_key callerRole \<notin> set object_prototype_keys \<or>
           property_key requiredRole \<notin> set object_prototype_keys"
  shows "hasRole callerRole requiredRole = spec_hasRole callerRole requiredRole"
proof -
  have k: "known_role x = (case x of None \<Rightarrow> None | Some key \<Rightarrow> known_role (Some key))" for x
    by (cases x) (simp_all add: known_role_def)
  have v: "roleHierarchy (property_key x) =
             (case known_role x of
                Some r \<Rightarrow> JNumber (rank r)
              | None \<Rightarrow>
                  if property_key x \<in> set object_prototype_keys
                  then JObject (object_prototype_member (property_key x))
                  else JUndefined)" for x
  proof (cases x)
    case None
    then show ?thesis
      using roleHierarchy_undefined
      by (simp add: known_role_def property_key_def object_prototype_keys_def)
  next
    case (Some key)
    then show ?thesis
      by (simp add: roleHierarchy_cases property_key_def split: option.splits)
  qed
  from assms show ?thesis
    by (auto simp: hasRole_def spec_hasRole_def v split: option.splits)
qed

section \<open>The reference instance meets the contract\<close>

lemma unnibble_nibble: "unnibble (nibble a b c d) = Some (a, b, c, d)"
  by (cases a; cases b; cases c; cases d) (simp_all add: unnibble_def)

lemma nibble_not_dot: "CHR ''.'' \<noteq> nibble a b c d"
  by (cases a; cases b; cases c; cases d) simp_all

lemma nibble_not_space: "CHR '' '' \<noteq> nibble a b c d"
  by (cases a; cases b; cases c; cases d) simp_all

lemma digit_val_char: "n < 10 \<Longrightarrow> digit_val (digit_char n) = Some n"
proof -
  assume "n < 10"
  then have "n \<in> set [0, 1, 2, 3, 4, 5, 6, 7, 8, 9]" by (simp, arith)
  moreover have "\<forall>k \<in> set [0, 1, 2, 3, 4, 5, 6, 7, 8, 9]. digit_val (digit_char k) = Some k"
    by (simp add: digit_val_def digit_char_def)
  ultimately show ?thesis by blast
qed

lemma unhex_hex: "unhex (hex s) = Some s"
proof (induction s)
  case Nil show ?case by simp
next
  case (Cons c cs)
  then show ?case by (cases c) (simp add: unnibble_nibble)
qed

lemma hex_no_dot: "CHR ''.'' \<notin> set (hex s)"
proof (induction s)
  case Nil show ?case by simp
next
  case (Cons c cs)
  then show ?case by (cases c) (simp add: nibble_not_dot)
qed

lemma hex_no_space: "CHR '' '' \<notin> set (hex s)"
proof (induction s)
  case Nil show ?case by simp
next
  case (Cons c cs)
  then show ?case by (cases c) (simp add: nibble_not_space)
qed

lemma undec_from_append:
  "undec_from a (xs @ ys) = (case undec_from a xs of None \<Rightarrow> None | Some b \<Rightarrow> undec_from b ys)"
  by (induction xs arbitrary: a) (auto split: option.splits)

lemma undec_from_dec: "undec_from 0 (dec n) = Some n"
proof (induction n rule: dec.induct)
  case (1 n)
  show ?case
  proof (cases "n < 10")
    case True
    then show ?thesis by (subst dec.simps) (simp add: digit_val_char)
  next
    case False
    from False 1 have "undec_from 0 (dec (n div 10)) = Some (n div 10)" by simp
    with False show ?thesis
      by (subst dec.simps) (simp add: undec_from_append digit_val_char)
  qed
qed

lemma dec_nonempty: "dec n \<noteq> []"
  by (subst dec.simps) simp

lemma undec_dec: "undec (dec n) = Some n"
  by (simp add: undec_def dec_nonempty undec_from_dec)

lemma js_split_join_dot:
  "xs \<noteq> [] \<Longrightarrow> \<forall>x \<in> set xs. CHR ''.'' \<notin> set x \<Longrightarrow> js_split CHR ''.'' (join_dot xs) = xs"
proof (induction xs rule: join_dot.induct)
  case 1 then show ?case by simp
next
  case (2 x) then show ?case by (simp add: js_split_no_sep)
next
  case (3 x y ys) then show ?case by (simp add: js_split_append_sep)
qed

lemma those_unhex_hex: "those (map unhex (map hex fs)) = Some fs"
  by (induction fs) (simp_all add: unhex_hex)

lemma opt_unfield_field: "opt_unfield (opt_field v) = Some v"
  by (cases v) (simp_all add: opt_field_def opt_unfield_def)

lemma ref_sign_token:
  assumes "ref_span e = Some d" and "secret \<noteq> []"
  shows "ref_sign p secret e t =
           Inr (join_dot (map hex
             ([opt_field (tok_id p), opt_field (tok_username p), opt_field (tok_email p),
               opt_field (tok_role p), dec t, dec (t + d)] @
              [ref_mac secret [opt_field (tok_id p), opt_field (tok_username p),
                 opt_field (tok_email p), opt_field (tok_role p), dec t, dec (t + d)]])))"
  using assms by (simp add: ref_sign_def Let_def)

lemma ref_verify_signed:
  assumes e: "ref_span e = Some d" and n: "secret \<noteq> []"
    and s: "ref_sign p secret e t = Inr tok"
  shows "ref_verify tok secret' clock =
           (if secret' = [] then Inl (JsonWebTokenError ''secret or public key must be provided'')
            else if secret' \<noteq> secret then Inl (JsonWebTokenError ''invalid signature'')
            else if t + d \<le> clock then Inl (TokenExpiredError ''jwt expired'')
            else Inr (payload.extend p \<lparr>tok_iat = t, tok_exp = t + d\<rparr>))"
proof -
  define fs where "fs = [opt_field (tok_id p), opt_field (tok_username p),
                     opt_field (tok_email p), opt_field (tok_role p), dec t, dec (t + d)]"
  from s ref_sign_token [OF e n, where p = p and t = t]
  have tok: "tok = join_dot (map hex (fs @ [ref_mac secret fs]))"
    by (simp add: fs_def)
  have "js_split CHR ''.'' tok = map hex (fs @ [ref_mac secret fs])"
    unfolding tok by (rule js_split_join_dot) (auto simp: hex_no_dot)
  then have "those (map unhex (js_split CHR ''.'' tok)) = Some (fs @ [ref_mac secret fs])"
    by (simp only: those_unhex_hex)
  then show ?thesis
    by (simp add: ref_verify_def fs_def opt_unfield_field undec_dec payload.defs claims.defs
          ref_mac_def)
qed

lemma ref_sign_no_space:
  assumes e: "ref_span e = Some d" and ne: "secret \<noteq> []"
    and s: "ref_sign p secret e t = Inr tok"
  shows "CHR '' '' \<notin> set tok \<and> tok \<noteq> []"
proof -
  have j: "\<forall>x \<in> set xs. CHR '' '' \<notin> set x \<Longrightarrow> CHR '' '' \<notin> set (join_dot xs)" for xs
    by (induction xs rule: join_dot.induct) auto
  have n: "xs \<noteq> [] \<Longrightarrow> join_dot (x # xs) \<noteq> []" for x xs
    by (cases xs) auto
  from s ref_sign_token [OF e ne, where p = p and t = t] show ?thesis
    by (auto simp: hex_no_space j n simp del: join_dot.simps hex.simps)
qed

lemma ref_jwt_contract: "jwt_contract ref_jwt ref_span"
  unfolding jwt_contract_def
proof (intro allI impI)
  fix p :: payload and secret e :: string and d t :: nat
  assume a: "secret \<noteq> [] \<and> ref_span e = Some d"
  then have n: "secret \<noteq> []" and e: "ref_span e = Some d" by simp_all
  from ref_sign_token [OF e n, where p = p and t = t] obtain tok where s: "ref_sign p secret e t = Inr tok"
    by blast
  from ref_verify_signed [OF e n s, where secret' = secret] s n
  show "\<exists>tok. sign ref_jwt p secret e t = Inr tok \<and>
           (\<forall>clock. clock < t + d \<longrightarrow>
              verify ref_jwt tok secret clock =
                Inr (payload.extend p \<lparr>tok_iat = t, tok_exp = t + d\<rparr>))"
    by (auto simp: ref_jwt_def)
qed

section \<open>Facts about the fixtures\<close>

lemma default_secret: "JWT_SECRET default_env \<noteq> []"
  by (simp add: default_env_def)

lemma default_span: "ref_span (JWT_EXPIRE default_env) = Some 604800"
  by (simp add: default_env_def ref_span_def undec_def digit_val_def)

lemma mock_token_issued: "generateToken ref_jwt default_env mockUser 100 = Inr mock_token"
  using default_span default_secret
  by (simp add: mock_token_def generateToken_def ref_jwt_def ref_sign_def Let_def)

lemma mock_token_verify:
  "ref_verify mock_token secret' clock =
     (if secret' = [] then Inl (JsonWebTokenError ''secret or public key must be provided'')
      else if secret' \<noteq> JWT_SECRET default_env then Inl (JsonWebTokenError ''invalid signature'')
      else if 604900 \<le> clock then Inl (TokenExpiredError ''jwt expired'')
      else Inr \<lparr>tok_id = Some ''507f1f77bcf86cd799439011'', tok_username = Some ''testuser'',
           tok_email = Some ''test@example.com'', tok_role = Some ''user'',
           tok_iat = 100, tok_exp = 604900\<rparr>)"
  using ref_verify_signed [OF default_span default_secret, where t = 100 and tok = mock_token
      and secret' = secret' and clock = clock]
    mock_token_issued
  by (simp add: generateToken_def ref_jwt_def mockUser_def payload.defs claims.defs)

lemma bearer_mock_token: "extractToken (Some (''Bearer '' @ mock_token)) = Some mock_token"
  using ref_sign_no_space [OF default_span default_secret, where t = 100 and tok = mock_token]
    mock_token_issued
  by (simp add: generateToken_def ref_jwt_def extractToken_Some_iff)

lemma mock_token_nonempty: "mock_token \<noteq> []"
  using ref_sign_no_space [OF default_span default_secret, where t = 100 and tok = mock_token]
    mock_token_issued
  by (simp add: generateToken_def ref_jwt_def)

lemma not_a_token:
  "ref_verify ''not-a-token'' secret clock = Inl (JsonWebTokenError ''jwt malformed'')"
  by (simp add: ref_verify_def unnibble_def)

section \<open>Token round trip\<close>

text \<open>
  Claim C1. For every user, and so for every Identity with a non-empty id, username,
  email and role: when the token package meets its contract, the configured secret is
  not empty and the configured lifetime is well formed, \<^verbatim>\<open>generateToken\<close> returns a
  token, and at every time before that token's expiry \<^verbatim>\<open>verifyToken\<close> returns
  claims whose id, username, email and role are those of the user (the id in its string
  form).
\<close>

theorem verifyToken_generateToken:
  assumes "jwt_contract lib span" and "JWT_SECRET cfg \<noteq> []"
    and "span (JWT_EXPIRE cfg) = Some d" and "clock < t + d"
  shows "\<exists>token decoded.
           generateToken lib cfg u t = Inr token \<and>
           verifyToken lib cfg token clock = Inr decoded \<and>
           tok_id decoded = map_option id_toString (user_id u) \<and>
           tok_username decoded = username u \<and>
           tok_email decoded = email u \<and>
           tok_role decoded = role u"
proof -
  define p where "p = \<lparr>tok_id = map_option id_toString (user_id u), tok_username = username u,
                        tok_email = email u, tok_role = role u\<rparr>"
  from assms(1,2,3) obtain token where
    s: "sign lib p (JWT_SECRET cfg) (JWT_EXPIRE cfg) t = Inr token" and
    v: "\<forall>c. c < t + d \<longrightarrow> verify lib token (JWT_SECRET cfg) c =
            Inr (payload.extend p \<lparr>tok_iat = t, tok_exp = t + d\<rparr>)"
    unfolding jwt_contract_def by blast
  from s have "generateToken lib cfg u t = Inr token"
    by (simp add: generateToken_def p_def)
  moreover from v assms(4) have
    "verifyToken lib cfg token clock = Inr (payload.extend p \<lparr>tok_iat = t, tok_exp = t + d\<rparr>)"
    by (simp add: verifyToken_def)
  moreover have "tok_id (payload.extend p \<lparr>tok_iat = t, tok_exp = t + d\<rparr>) = map_option id_toString (user_id u)"
    "tok_username (payload.extend p \<lparr>tok_iat = t, tok_exp = t + d\<rparr>) = username u"
    "tok_email (payload.extend p \<lparr>tok_iat = t, tok_exp = t + d\<rparr>) = email u"
    "tok_role (payload.extend p \<lparr>tok_iat = t, tok_exp = t + d\<rparr>) = role u"
    by (simp_all add: p_def payload.defs)
  ultimately show ?thesis by blast
qed

text \<open>
  Claim C1, at the test user: the reference package meets the contract, the default
  configuration has a secret and a lifetime of seven days, and a token issued at time 100
  verifies at time 1000 with the user's four fields.
\<close>

theorem verifyToken_generateToken_witness:
  "jwt_contract ref_jwt ref_span \<and> JWT_SECRET default_env \<noteq> [] \<and>
   ref_span (JWT_EXPIRE default_env) = Some 604800 \<and>
   (1000::nat) < 100 + 604800 \<and>
   (\<exists>token decoded.
      generateToken ref_jwt default_env mockUser 100 = Inr token \<and>
      verifyToken ref_jwt default_env token 1000 = Inr decoded \<and>
      tok_id decoded = Some ''507f1f77bcf86cd799439011'' \<and>
      tok_username decoded = Some ''testuser'' \<and>
      tok_email decoded = Some ''test@example.com'' \<and>
      tok_role decoded = Some ''user'')"
proof -
  have h: "(1000::nat) < 100 + 604800" by simp
  from verifyToken_generateToken [OF ref_jwt_contract default_secret default_span h, of mockUser]
  show ?thesis using ref_jwt_contract default_secret default_span by (simp add: mockUser_def)
qed

section \<open>Ownership\<close>

text \<open>
  Claim C2. Without a caller the ownership check answers 401
  \<^verbatim>\<open>Authentication required\<close>. A caller whose role is \<^verbatim>\<open>admin\<close> passes, whatever
  the resource. Any other caller, with an id that is not empty as the id of an Identity
  is, passes exactly when the request carries a resource whose owner field is present and
  has the same string form as the caller's id; in every other case, an absent resource or
  field included, the answer is 403
  \<^verbatim>\<open>Access denied - you can only access your own resources\<close>.
\<close>

theorem requireOwnership_decision:
  "(user req = None \<longrightarrow>
      fst (requireOwnership cfg resourceField req w)
        = Respond 401 \<lparr>success = False, message = ''Authentication required''\<rparr>) \<and>
   (\<forall>u. user req = Some u \<and> role u = Some ''admin'' \<longrightarrow>
      fst (requireOwnership cfg resourceField req w) = Next req) \<and>
   (\<forall>u uid.
      user req = Some u \<and> role u \<noteq> Some ''admin'' \<and> user_id u = Some uid \<and>
      id_toString uid \<noteq> [] \<longrightarrow>
      fst (requireOwnership cfg resourceField req w)
        = (if \<exists>r owner. resource req = Some r \<and> r resourceField = Some owner \<and>
                 id_toString owner = id_toString uid
           then Next req
           else Respond 403 \<lparr>success = False,
                  message = ''Access denied - you can only access your own resources''\<rparr>))"
proof (intro conjI allI impI)
  assume "user req = None"
  then show "fst (requireOwnership cfg resourceField req w)
        = Respond 401 \<lparr>success = False, message = ''Authentication required''\<rparr>"
    by (simp add: requireOwnership_def)
next
  fix u
  assume "user req = Some u \<and> role u = Some ''admin''"
  then show "fst (requireOwnership cfg resourceField req w) = Next req"
    by (simp add: requireOwnership_def)
next
  fix u uid
  assume a: "user req = Some u \<and> role u \<noteq> Some ''admin'' \<and> user_id u = Some uid \<and>
      id_toString uid \<noteq> []"
  have t: "id_truthy owner" if "id_toString owner = id_toString uid" for owner
    using that a by (cases owner) auto
  from a t show "fst (requireOwnership cfg resourceField req w)
        = (if \<exists>r owner. resource req = Some r \<and> r resourceField = Some owner \<and>
                 id_toString owner = id_toString uid
           then Next req
           else Respond 403 \<lparr>success = False,
                  message = ''Access denied - you can only access your own resources''\<rparr>)"
    by (auto simp: requireOwnership_def Let_def split: option.splits)
qed

text \<open>
  Claim C2, at the fixtures: no caller; an admin on another user's resource; the test
  user on a resource whose owner is an ObjectId with the same text as the user's string
  id; the test user on another user's resource; the test user without a resource.
\<close>

theorem requireOwnership_decision_witness:
  "fst (requireOwnership default_env ''author'' mockReq mock_world)
     = Respond 401 \<lparr>success = False, message = ''Authentication required''\<rparr> \<and>
   fst (requireOwnership default_env ''author''
          (mockReq\<lparr>user := Some adminUser, resource := Some (resource_with ''author'' (IdString ''u2''))\<rparr>)
          mock_world)
     = Next (mockReq\<lparr>user := Some adminUser, resource := Some (resource_with ''author'' (IdString ''u2''))\<rparr>) \<and>
   fst (requireOwnership default_env ''author''
          (mockReq\<lparr>user := Some mockUser,
                   resource := Some (resource_with ''author'' (IdObject ''507f1f77bcf86cd799439011''))\<rparr>)
          mock_world)
     = Next (mockReq\<lparr>user := Some mockUser,
                   resource := Some (resource_with ''author'' (IdObject ''507f1f77bcf86cd799439011''))\<rparr>) \<and>
   fst (requireOwnership default_env ''author''
          (mockReq\<lparr>user := Some mockUser, resource := Some (resource_with ''author'' (IdString ''u2''))\<rparr>)
          mock_world)
     = Respond 403 \<lparr>success = False,
          message = ''Access denied - you can only access your own resources''\<rparr> \<and>
   fst (requireOwnership default_env ''author'' (mockReq\<lparr>user := Some mockUser\<rparr>) mock_world)
     = Respond 403 \<lparr>success = False,
          message = ''Access denied - you can only access your own resources''\<rparr>"
  using requireOwnership_decision [of mockReq default_env "''author''" mock_world]
    requireOwnership_decision [of "mockReq\<lparr>user := Some adminUser, resource := Some (resource_with ''author'' (IdString ''u2''))\<rparr>" default_env "''author''" mock_world]
    requireOwnership_decision [of "mockReq\<lparr>user := Some mockUser,
                   resource := Some (resource_with ''author'' (IdObject ''507f1f77bcf86cd799439011''))\<rparr>" default_env "''author''" mock_world]
    requireOwnership_decision [of "mockReq\<lparr>user := Some mockUser, resource := Some (resource_with ''author'' (IdString ''u2''))\<rparr>" default_env "''author''" mock_world]
    requireOwnership_decision [of "mockReq\<lparr>user := Some mockUser\<rparr>" default_env "''author''" mock_world]
  by (simp add: mockReq_def adminUser_def mockUser_def resource_with_def)

section \<open>Role hierarchy\<close>

text \<open>
  Claim C3 fails on the code for role names that the table inherits from
  \<^verbatim>\<open>Object.prototype\<close>. \<^verbatim>\<open>hasRole('constructor', 'constructor')\<close> looks up the same
  function on both sides; \<^verbatim>\<open>>=\<close> compares the two by their string primitives, which are
  equal, so the result is true, while \<^verbatim>\<open>constructor\<close> is no role and the claim asks for
  false.
\<close>

theorem hasRole_inherited_name:
  "hasRole (Some ''constructor'') (Some ''constructor'') \<and>
   \<not> spec_hasRole (Some ''constructor'') (Some ''constructor'')"
  by (simp add: hasRole_def roleHierarchy_def property_key_def object_prototype_keys_def
        js_string_less_irrefl spec_hasRole_def known_role_def)

text \<open>The five examples of the specification and the invalid names of the unit tests hold.\<close>

lemma hasRole_examples:
  "hasRole (Some ''admin'') (Some ''user'') \<and> \<not> hasRole (Some ''user'') (Some ''admin'')
   \<and> hasRole (Some ''user'') (Some ''user'') \<and> \<not> hasRole None (Some ''user'')
   \<and> \<not> hasRole (Some ''user'') None \<and> \<not> hasRole (Some ''invalid'') (Some ''user'')
   \<and> \<not> hasRole (Some ''user'') (Some ''invalid'')"
  by (simp add: hasRole_def roleHierarchy_def property_key_def object_prototype_keys_def)

section \<open>Failure of verification\<close>

text \<open>
  Claim C4 fails as stated: on a malformed token \<^verbatim>\<open>verifyToken\<close> throws to its
  caller; it does not return a rejection value.
\<close>

theorem verifyToken_throws_counterexample:
  "verifyToken ref_jwt default_env ''not-a-token'' 1000 = Inl (Error ''Invalid token'')"
  by (simp add: verifyToken_def ref_jwt_def not_a_token)

text \<open>
  Claim C4, amended. For every token, \<^verbatim>\<open>verifyToken\<close> either returns the claims the
  package returns, or, when the package throws, throws one exception to its caller, an
  Error with the message \<^verbatim>\<open>Invalid token\<close>. The middleware that calls it,
  \<^verbatim>\<open>authenticateToken\<close> and \<^verbatim>\<open>optionalAuth\<close>, catches that exception: nothing is
  thrown out of either.
\<close>

theorem verifyToken_returns_or_throws:
  "((\<exists>decoded. verify lib token (JWT_SECRET cfg) clock = Inr decoded \<and>
                verifyToken lib cfg token clock = Inr decoded) \<or>
    ((\<exists>err. verify lib token (JWT_SECRET cfg) clock = Inl err) \<and>
     verifyToken lib cfg token clock = Inl (Error ''Invalid token''))) \<and>
   fst (authenticateToken lib cfg req w) \<noteq> Throws e \<and>
   fst (optionalAuth lib cfg req w) \<noteq> Throws e"
proof (intro conjI)
  show "(\<exists>decoded. verify lib token (JWT_SECRET cfg) clock = Inr decoded \<and>
                verifyToken lib cfg token clock = Inr decoded) \<or>
    ((\<exists>err. verify lib token (JWT_SECRET cfg) clock = Inl err) \<and>
     verifyToken lib cfg token clock = Inl (Error ''Invalid token''))"
    by (cases "verify lib token (JWT_SECRET cfg) clock") (simp_all add: verifyToken_def)
  show "fst (authenticateToken lib cfg req w) \<noteq> Throws e"
    by (simp add: authenticateToken_def Let_def split: option.splits sum.splits)
  show "fst (optionalAuth lib cfg req w) \<noteq> Throws e"
    by (simp add: optionalAuth_def split: option.splits sum.splits)
qed

text \<open>
  Claim C4, amended, at the test token: accepted before its expiry, thrown as
  \<^verbatim>\<open>Invalid token\<close> at its expiry; and a malformed token ends \<^verbatim>\<open>authenticateToken\<close>
  in a 401 response.
\<close>

theorem verifyToken_returns_or_throws_witness:
  "verifyToken ref_jwt default_env mock_token 1000 =
     Inr \<lparr>tok_id = Some ''507f1f77bcf86cd799439011'', tok_username = Some ''testuser'',
          tok_email = Some ''test@example.com'', tok_role = Some ''user'',
          tok_iat = 100, tok_exp = 604900\<rparr> \<and>
   verifyToken ref_jwt default_env mock_token 604900 = Inl (Error ''Invalid token'') \<and>
   fst (authenticateToken ref_jwt default_env
          (mockReq\<lparr>authorization := Some ''Bearer not-a-token''\<rparr>) mock_world)
     = Respond 401 \<lparr>success = False, message = ''Invalid or expired token''\<rparr>"
  using verifyToken_returns_or_throws [of ref_jwt mock_token default_env 1000]
    verifyToken_returns_or_throws [of ref_jwt mock_token default_env 604900]
    verifyToken_returns_or_throws [of ref_jwt "''not-a-token''" default_env 1000]
  by (simp add: ref_jwt_def mock_token_verify default_secret not_a_token authenticateToken_def mockReq_def
        mock_world_def extractToken_def)

text \<open>
  Claim C5. Whatever the package throws on two tokens (expired, wrongly signed or
  malformed), \<^verbatim>\<open>verifyToken\<close> gives the same outcome on both, the Error with the
  message \<^verbatim>\<open>Invalid token\<close>: the outcome does not tell the causes apart.
\<close>

theorem verifyToken_uniform_failure:
  assumes "verify lib t1 (JWT_SECRET cfg) clock1 = Inl err1"
    and "verify lib t2 (JWT_SECRET cfg) clock2 = Inl err2"
  shows "verifyToken lib cfg t1 clock1 = verifyToken lib cfg t2 clock2 \<and>
         verifyToken lib cfg t1 clock1 = Inl (Error ''Invalid token'')"
  using assms by (simp add: verifyToken_def)

text \<open>
  Claim C5, at an expired token, a token checked under another secret and a malformed
  token: the package throws three different errors, \<^verbatim>\<open>verifyToken\<close> one outcome.
\<close>

theorem verifyToken_uniform_failure_witness:
  "verify ref_jwt mock_token (JWT_SECRET default_env) 604900 = Inl (TokenExpiredError ''jwt expired'') \<and>
   verify ref_jwt mock_token (JWT_SECRET (default_env\<lparr>JWT_SECRET := ''another secret''\<rparr>)) 1000
     = Inl (JsonWebTokenError ''invalid signature'') \<and>
   verify ref_jwt ''not-a-token'' (JWT_SECRET default_env) 1000
     = Inl (JsonWebTokenError ''jwt malformed'') \<and>
   verifyToken ref_jwt default_env mock_token 604900
     = verifyToken ref_jwt default_env ''not-a-token'' 1000 \<and>
   verifyToken ref_jwt (default_env\<lparr>JWT_SECRET := ''another secret''\<rparr>) mock_token 1000
     = verifyToken ref_jwt default_env ''not-a-token'' 1000"
proof -
  have a: "verify ref_jwt mock_token (JWT_SECRET default_env) 604900
             = Inl (TokenExpiredError ''jwt expired'')"
    by (simp add: ref_jwt_def mock_token_verify default_secret)
  have b: "verify ref_jwt ''not-a-token'' (JWT_SECRET default_env) 1000
             = Inl (JsonWebTokenError ''jwt malformed'')"
    by (simp add: ref_jwt_def not_a_token)
  have c: "verify ref_jwt mock_token (JWT_SECRET (default_env\<lparr>JWT_SECRET := ''another secret''\<rparr>)) 1000
             = Inl (JsonWebTokenError ''invalid signature'')"
    by (simp add: ref_jwt_def mock_token_verify default_secret default_env_def)
  have d: "verify ref_jwt ''not-a-token'' (JWT_SECRET (default_env\<lparr>JWT_SECRET := ''another secret''\<rparr>)) 1000
             = Inl (JsonWebTokenError ''jwt malformed'')"
    by (simp add: ref_jwt_def not_a_token)
  have e: "verifyToken ref_jwt (default_env\<lparr>JWT_SECRET := ''another secret''\<rparr>) ''not-a-token'' 1000
             = verifyToken ref_jwt default_env ''not-a-token'' 1000"
    by (simp add: verifyToken_def ref_jwt_def not_a_token)
  from verifyToken_uniform_failure [OF a b] verifyToken_uniform_failure [OF c d] a b c e
  show ?thesis by simp
qed

section \<open>Reading the header\<close>

text \<open>
  Claim C6 fails on the header \<^verbatim>\<open>"Bearer "\<close> (the scheme, one space, nothing
  after it): the remainder is empty, and \<^verbatim>\<open>extractToken\<close> returns the empty string
  instead of \<^verbatim>\<open>null\<close>.
\<close>

theorem extractToken_trailing_space: "extractToken (Some ''Bearer '') = Some ''''"
  by (simp add: extractToken_def)

text \<open>The five examples of the specification hold.\<close>

lemma extractToken_examples:
  "extractToken (Some ''Bearer abc123'') = Some ''abc123'' \<and>
   extractToken (Some ''Bearer'') = None \<and>
   extractToken (Some ''abc123'') = None \<and>
   extractToken None = None \<and>
   extractToken (Some ''Basic abc123'') = None"
  by (simp add: extractToken_def)

section \<open>Denials\<close>

text \<open>
  Claim C7. When the header yields no token, \<^verbatim>\<open>authenticateToken\<close> answers 401
  \<^verbatim>\<open>Access token is required\<close>. When it yields a token that the package rejects, the
  answer is 401 \<^verbatim>\<open>Invalid or expired token\<close>. A caller whose role does not reach the
  required role gets 403 \<^verbatim>\<open>Access denied - insufficient permissions\<close>. Without a
  caller, the role check and the ownership check both answer 401
  \<^verbatim>\<open>Authentication required\<close>. Every body has \<open>success\<close> false.
\<close>

theorem denial_responses:
  "(extractToken (authorization req) = None \<or> extractToken (authorization req) = Some [] \<longrightarrow>
      fst (authenticateToken lib cfg req w)
        = Respond 401 \<lparr>success = False, message = ''Access token is required''\<rparr>) \<and>
   (\<forall>token err.
      extractToken (authorization req) = Some token \<and> token \<noteq> [] \<and>
      verify lib token (JWT_SECRET cfg) (now w) = Inl err \<longrightarrow>
      fst (authenticateToken lib cfg req w)
        = Respond 401 \<lparr>success = False, message = ''Invalid or expired token''\<rparr>) \<and>
   (\<forall>u. user req = Some u \<and> \<not> hasRole (role u) requiredRole \<longrightarrow>
      fst (requireRole cfg requiredRole req w)
        = Respond 403 \<lparr>success = False, message = ''Access denied - insufficient permissions''\<rparr>) \<and>
   (user req = None \<longrightarrow>
      fst (requireRole cfg requiredRole req w)
        = Respond 401 \<lparr>success = False, message = ''Authentication required''\<rparr> \<and>
      fst (requireOwnership cfg resourceField req w)
        = Respond 401 \<lparr>success = False, message = ''Authentication required''\<rparr>)"
proof (intro conjI allI impI)
  assume "extractToken (authorization req) = None \<or> extractToken (authorization req) = Some []"
  then show "fst (authenticateToken lib cfg req w)
        = Respond 401 \<lparr>success = False, message = ''Access token is required''\<rparr>"
    by (auto simp: authenticateToken_def)
next
  fix token err
  assume "extractToken (authorization req) = Some token \<and> token \<noteq> [] \<and>
      verify lib token (JWT_SECRET cfg) (now w) = Inl err"
  then show "fst (authenticateToken lib cfg req w)
        = Respond 401 \<lparr>success = False, message = ''Invalid or expired token''\<rparr>"
    by (simp add: authenticateToken_def verifyToken_def)
next
  fix u
  assume "user req = Some u \<and> \<not> hasRole (role u) requiredRole"
  then show "fst (requireRole cfg requiredRole req w)
        = Respond 403 \<lparr>success = False, message = ''Access denied - insufficient permissions''\<rparr>"
    by (simp add: requireRole_def)
next
  assume "user req = None"
  then show "fst (requireRole cfg requiredRole req w)
        = Respond 401 \<lparr>success = False, message = ''Authentication required''\<rparr>"
    by (simp add: requireRole_def)
next
  assume "user req = None"
  then show "fst (requireOwnership cfg resourceField req w)
        = Respond 401 \<lparr>success = False, message = ''Authentication required''\<rparr>"
    by (simp add: requireOwnership_def)
qed

text \<open>
  Claim C7, at the fixtures: a request without a header, a request with the test token
  at its expiry, the test user on an admin route, and no caller at either check.
\<close>

theorem denial_responses_witness:
  "fst (authenticateToken ref_jwt default_env mockReq mock_world)
     = Respond 401 \<lparr>success = False, message = ''Access token is required''\<rparr> \<and>
   fst (authenticateToken ref_jwt default_env
          (mockReq\<lparr>authorization := Some (''Bearer '' @ mock_token)\<rparr>) (mock_world\<lparr>now := 604900\<rparr>))
     = Respond 401 \<lparr>success = False, message = ''Invalid or expired token''\<rparr> \<and>
   fst (requireRole default_env (Some ''admin'') (mockReq\<lparr>user := Some mockUser\<rparr>) mock_world)
     = Respond 403 \<lparr>success = False, message = ''Access denied - insufficient permissions''\<rparr> \<and>
   fst (requireRole default_env (Some ''user'') mockReq mock_world)
     = Respond 401 \<lparr>success = False, message = ''Authentication required''\<rparr> \<and>
   fst (requireOwnership default_env ''author'' mockReq mock_world)
     = Respond 401 \<lparr>success = False, message = ''Authentication required''\<rparr>"
proof -
  have a: "extractToken (authorization mockReq) = None"
    by (simp add: mockReq_def extractToken_def)
  have b: "extractToken (authorization (mockReq\<lparr>authorization := Some (''Bearer '' @ mock_token)\<rparr>))
             = Some mock_token \<and> mock_token \<noteq> [] \<and>
           verify ref_jwt mock_token (JWT_SECRET default_env) (now (mock_world\<lparr>now := 604900\<rparr>))
             = Inl (TokenExpiredError ''jwt expired'')"
    using bearer_mock_token mock_token_nonempty by (simp add: ref_jwt_def mock_token_verify default_secret)
  have c: "user (mockReq\<lparr>user := Some mockUser\<rparr>) = Some mockUser \<and>
           \<not> hasRole (role mockUser) (Some ''admin'')"
    by (simp add: mockUser_def hasRole_def roleHierarchy_def property_key_def)
  have d: "user mockReq = None" by (simp add: mockReq_def)
  from denial_responses [of mockReq ref_jwt default_env mock_world "Some ''user''" "''author''"]
    denial_responses [of "mockReq\<lparr>authorization := Some (''Bearer '' @ mock_token)\<rparr>" ref_jwt
      default_env "mock_world\<lparr>now := 604900\<rparr>" "Some ''user''" "''author''"]
    denial_responses [of "mockReq\<lparr>user := Some mockUser\<rparr>" ref_jwt default_env mock_world
      "Some ''admin''" "''author''"]
    a b c d
  show ?thesis by blast
qed

section \<open>Purity of the checks\<close>




section \<open>Optional authentication\<close>

text \<open>
  Claim C9. For every header, \<^verbatim>\<open>optionalAuth\<close> ends by calling \<^verbatim>\<open>next\<close>: it
  sends no response, throws nothing and leaves the world as it was. The request goes on
  unchanged, unless the header yields a non-empty token that the package accepts and the
  user found under the token's id exists and is active; only then is that user attached.
\<close>

theorem optionalAuth_always_next:
  "\<exists>req'. optionalAuth lib cfg req w = (Next req', w) \<and>
      (req' = req \<or>
       (\<exists>token decoded u.
          extractToken (authorization req) = Some token \<and> token \<noteq> [] \<and>
          verify lib token (JWT_SECRET cfg) (now w) = Inr decoded \<and>
          findById w (tok_id decoded) = Inr (Some u) \<and> isActive u \<and>
          req' = req\<lparr>user := Some u\<rparr>))"
  by (auto simp: optionalAuth_def verifyToken_def split: option.splits sum.splits)

text \<open>
  Claim C9, at the fixtures: no header, an invalid token, and the test token, which
  attaches the test user.
\<close>

theorem optionalAuth_always_next_witness:
  "optionalAuth ref_jwt default_env mockReq mock_world = (Next mockReq, mock_world) \<and>
   optionalAuth ref_jwt default_env (mockReq\<lparr>authorization := Some ''Bearer invalid.token''\<rparr>) mock_world
     = (Next (mockReq\<lparr>authorization := Some ''Bearer invalid.token''\<rparr>), mock_world) \<and>
   optionalAuth ref_jwt default_env (mockReq\<lparr>authorization := Some (''Bearer '' @ mock_token)\<rparr>) mock_world
     = (Next (mockReq\<lparr>authorization := Some (''Bearer '' @ mock_token), user := Some mockUser\<rparr>),
        mock_world)"
proof -
  have v: "verify ref_jwt ''invalid.token'' (JWT_SECRET default_env) (now mock_world)
             = Inl (JsonWebTokenError ''jwt malformed'')"
    by (simp add: ref_jwt_def ref_verify_def unnibble_def)
  have e: "extractToken (Some ''Bearer invalid.token'') = Some ''invalid.token''"
    by (simp add: extractToken_def)
  from optionalAuth_always_next [of ref_jwt default_env mockReq mock_world]
    optionalAuth_always_next [of ref_jwt default_env
      "mockReq\<lparr>authorization := Some ''Bearer invalid.token''\<rparr>" mock_world]
    optionalAuth_always_next [of ref_jwt default_env
      "mockReq\<lparr>authorization := Some (''Bearer '' @ mock_token)\<rparr>" mock_world]
    v e bearer_mock_token mock_token_nonempty
  show ?thesis
    by (simp add: optionalAuth_def verifyToken_def ref_jwt_def mock_token_verify default_secret mockReq_def
          mock_world_def mock_findById_def mockUser_def extractToken_def)
qed

section \<open>Ownership for callers who are not admins\<close>

text \<open>
  Claim C10. For a caller whose role is not \<^verbatim>\<open>admin\<close>, the ownership check passes
  exactly when the request carries a resource whose owner field is present and truthy,
  the caller has an id, and the two string forms are equal; the request goes on
  unchanged. When the resource or its owner field is absent the check answers 403
  \<^verbatim>\<open>Access denied - you can only access your own resources\<close>; it neither passes nor
  throws.
\<close>

theorem requireOwnership_non_admin:
  assumes "user req = Some u" and "role u \<noteq> Some ''admin''"
  shows "(fst (requireOwnership cfg resourceField req w) = Next req \<longleftrightarrow>
            (\<exists>r owner uid. resource req = Some r \<and> r resourceField = Some owner \<and>
               id_truthy owner \<and> user_id u = Some uid \<and>
               id_toString owner = id_toString uid)) \<and>
         (\<forall>req'. fst (requireOwnership cfg resourceField req w) = Next req' \<longrightarrow> req' = req) \<and>
         (resource req = None \<or> (\<exists>r. resource req = Some r \<and> r resourceField = None) \<longrightarrow>
            fst (requireOwnership cfg resourceField req w)
              = Respond 403 \<lparr>success = False,
                   message = ''Access denied - you can only access your own resources''\<rparr>)"
  using assms by (auto simp: requireOwnership_def Let_def split: option.splits)

text \<open>
  Claim C10, at the test user: a request without a resource and a resource without the
  field asked for are refused; a resource whose field holds the user's id passes.
\<close>

theorem requireOwnership_non_admin_witness:
  "user (mockReq\<lparr>user := Some mockUser\<rparr>) = Some mockUser \<and> role mockUser \<noteq> Some ''admin'' \<and>
   fst (requireOwnership default_env ''author'' (mockReq\<lparr>user := Some mockUser\<rparr>) mock_world)
     = Respond 403 \<lparr>success = False,
          message = ''Access denied - you can only access your own resources''\<rparr> \<and>
   fst (requireOwnership default_env ''owner''
          (mockReq\<lparr>user := Some mockUser,
                   resource := Some (resource_with ''author'' (IdString ''507f1f77bcf86cd799439011''))\<rparr>)
          mock_world)
     = Respond 403 \<lparr>success = False,
          message = ''Access denied - you can only access your own resources''\<rparr> \<and>
   fst (requireOwnership default_env ''owner''
          (mockReq\<lparr>user := Some mockUser,
                   resource := Some (resource_with ''owner'' (IdString ''507f1f77bcf86cd799439011''))\<rparr>)
          mock_world)
     = Next (mockReq\<lparr>user := Some mockUser,
                   resource := Some (resource_with ''owner'' (IdString ''507f1f77bcf86cd799439011''))\<rparr>)"
proof -
  have r: "role mockUser \<noteq> Some ''admin''" by (simp add: mockUser_def)
  have u1: "user (mockReq\<lparr>user := Some mockUser\<rparr>) = Some mockUser" by simp
  have u2: "user (mockReq\<lparr>user := Some mockUser,
                   resource := Some (resource_with ''author'' (IdString ''507f1f77bcf86cd799439011''))\<rparr>) = Some mockUser" by simp
  have u3: "user (mockReq\<lparr>user := Some mockUser,
                   resource := Some (resource_with ''owner'' (IdString ''507f1f77bcf86cd799439011''))\<rparr>) = Some mockUser" by simp
  from requireOwnership_non_admin [OF u1 r, of default_env "''author''" mock_world]
    requireOwnership_non_admin [OF u2 r, of default_env "''owner''" mock_world]
    requireOwnership_non_admin [OF u3 r, of default_env "''owner''" mock_world] r
  show ?thesis
    by (simp add: mockReq_def resource_with_def mockUser_def)
qed

end
